theory Spec2Isabelle
  imports Main "HOL-Library.Sublist"
begin

section \<open>Python values, exceptions and observable effects\<close>

text \<open>
  The program is \<^verbatim>\<open>src/code_reviewer.py\<close>: a class \<^verbatim>\<open>CodeReviewer\<close> with the methods
  \<^verbatim>\<open>__init__\<close>, \<^verbatim>\<open>get_git_diff\<close>, \<^verbatim>\<open>review_code\<close>, \<^verbatim>\<open>format_review\<close>, and the entry point
  \<^verbatim>\<open>main\<close>. Python text is modelled as \<open>string\<close>, the UTF-8 bytes of the text; every
  literal the program matches on or splits at is ASCII, so a prefix test and a split at
  the newline byte agree with Python's tests on code points.

  Everything the program does to the outside is recorded as an event, in program order:
  a log record, a subprocess run, a file read, the call of the remote service, a
  \<^verbatim>\<open>print\<close>. Everything the outside answers is a field of the record \<open>world\<close>.
\<close>

text \<open>
  Exceptions that reach the program. Each constructor is a class deriving from
  \<^verbatim>\<open>Exception\<close>; \<open>APIError\<close> stands for \<^verbatim>\<open>anthropic.APIError\<close> and its subclasses,
  \<open>OtherException name msg\<close> for an instance of any other class (\<^verbatim>\<open>PermissionError\<close>,
  \<^verbatim>\<open>IsADirectoryError\<close>, \<^verbatim>\<open>IndexError\<close>, a transport error, ...) with its class name and
  its \<^verbatim>\<open>str\<close>.
\<close>

datatype exn =
    ValueError string
  | FileNotFoundError string
  | APIError string
  | OtherException string string

fun exn_name :: "exn \<Rightarrow> string" where
  "exn_name (ValueError m) = ''ValueError''"
| "exn_name (FileNotFoundError m) = ''FileNotFoundError''"
| "exn_name (APIError m) = ''APIError''"
| "exn_name (OtherException n m) = n"

fun exn_str :: "exn \<Rightarrow> string" where
  "exn_str (ValueError m) = m"
| "exn_str (FileNotFoundError m) = m"
| "exn_str (APIError m) = m"
| "exn_str (OtherException n m) = m"

datatype level = INFO | ERROR

record request =
  model :: string
  max_tokens :: int
  messages :: "(string \<times> string) list"
  system :: string

datatype event =
    Log level string
  | Subprocess "string list"
  | OpenFile string
  | MessagesCreate request
  | Print string

text \<open>What \<^verbatim>\<open>open(path, 'r')\<close> followed by \<^verbatim>\<open>f.read()\<close> gives.\<close>

datatype read_result = Contents string | ReadRaises exn

text \<open>
  What running the command gives before \<^verbatim>\<open>check=True\<close> is applied: a completed process
  with return code, captured stdout and captured stderr, or an exception of
  \<^verbatim>\<open>subprocess.run\<close> itself (the executable is missing, the output does not decode).
\<close>

datatype run_result = Completed int string string | RunRaises exn

text \<open>
  What \<^verbatim>\<open>client.messages.create\<close> gives: a message with its list of content blocks, or
  an exception. A block either has a \<^verbatim>\<open>text\<close> attribute or is of another class, named.
\<close>

datatype content_block = TextBlock string | NonTextBlock string

datatype create_result = Message "content_block list" | CreateRaises exn

record world =
  getenv_api_key :: "string option"
  open_read :: "string \<Rightarrow> read_result"
  subprocess_run :: "string list \<Rightarrow> run_result"
  messages_create :: "request \<Rightarrow> create_result"

text \<open>The parsed command line, with the defaults of the argument parser.\<close>

record args =
  arg_diff_file :: "string option"
  arg_target_branch :: string
  arg_staged :: bool
  arg_context :: string

definition default_args :: args where
  "default_args = \<lparr>arg_diff_file = None, arg_target_branch = ''main'', arg_staged = False, arg_context = ''''\<rparr>"

text \<open>
  How a run of \<^verbatim>\<open>main\<close> ends: \<^verbatim>\<open>sys.exit(n)\<close>, falling off the end of \<^verbatim>\<open>main\<close>, or an
  exception that no handler of the program catches. The interpreter turns the second
  into status 0 and the third into a traceback and status 1.
\<close>

datatype outcome = Exit int | Returned | Uncaught exn


fun explicit_exit :: "outcome \<Rightarrow> bool" where
  "explicit_exit (Exit n) = (n = 0 \<or> n = 1)"
| "explicit_exit Returned = True"
| "explicit_exit (Uncaught e) = False"

subsection \<open>Truthiness and string methods\<close>

definition truthy :: "string \<Rightarrow> bool" where
  "truthy s = (s \<noteq> [])"

fun truthy_opt :: "string option \<Rightarrow> bool" where
  "truthy_opt None = False"
| "truthy_opt (Some s) = truthy s"

text \<open>\<^verbatim>\<open>a or b\<close> on optional strings.\<close>

definition py_or :: "string option \<Rightarrow> string option \<Rightarrow> string option" where
  "py_or a b = (if truthy_opt a then a else b)"

text \<open>\<^verbatim>\<open>s.startswith(p)\<close>: the first \<open>length p\<close> characters of \<open>s\<close> are \<open>p\<close>.\<close>

definition startswith :: "string \<Rightarrow> string \<Rightarrow> bool" where
  "startswith s p = (take (length p) s = p)"

text \<open>
  \<^verbatim>\<open>s.strip()\<close> removes leading and trailing whitespace. The ASCII whitespace of
  \<^verbatim>\<open>str.isspace\<close> is tab, line feed, vertical tab, form feed, carriage return, the four
  separators 0x1C to 0x1F and the space; whitespace beyond ASCII is outside this model.
\<close>

definition isspace :: "char \<Rightarrow> bool" where
  "isspace c = (c \<in> {CHR 0x09, CHR 0x0A, CHR 0x0B, CHR 0x0C, CHR 0x0D,
                      CHR 0x1C, CHR 0x1D, CHR 0x1E, CHR 0x1F, CHR 0x20})"

definition strip :: "string \<Rightarrow> string" where
  "strip s = rev (dropWhile isspace (rev (dropWhile isspace s)))"

text \<open>\<^verbatim>\<open>s.split('\n')\<close>: always at least one piece, empty pieces kept.\<close>

fun split_nl :: "string \<Rightarrow> string list" where
  "split_nl [] = [[]]"
| "split_nl (c # cs) =
     (if c = CHR 0x0A then [] # split_nl cs
      else (case split_nl cs of [] \<Rightarrow> [[c]] | l # ls \<Rightarrow> (c # l) # ls))"

text \<open>\<^verbatim>\<open>'\n'.join(ls)\<close>, the inverse the split is measured against.\<close>

fun join_nl :: "string list \<Rightarrow> string" where
  "join_nl [] = []"
| "join_nl [l] = l"
| "join_nl (l # ls) = l @ CHR 0x0A # join_nl ls"

section \<open>The class CodeReviewer\<close>

record reviewer =
  api_key :: string
  reviewer_model :: string

text \<open>
  \<^verbatim>\<open>__init__(self, api_key=None)\<close>: the key is the argument or else the environment
  value; a missing or empty key raises \<^verbatim>\<open>ValueError\<close>. Building the client object makes
  no call.
\<close>

definition msg_no_key :: string where
  "msg_no_key =
     ''ANTHROPIC_API_KEY not found. Set it as an environment variable or pass it directly.''"

definition CodeReviewer_init :: "string option \<Rightarrow> world \<Rightarrow> exn + reviewer" where
  "CodeReviewer_init api_key_arg w =
     (case py_or api_key_arg (getenv_api_key w) of
        None \<Rightarrow> Inl (ValueError msg_no_key)
      | Some k \<Rightarrow>
          if \<not> truthy k then Inl (ValueError msg_no_key)
          else Inr \<lparr>api_key = k, reviewer_model = ''claude-haiku-4-5''\<rparr>)"

subsection \<open>get\_git\_diff\<close>

definition git_cmd :: "string \<Rightarrow> bool \<Rightarrow> string list" where
  "git_cmd target_branch staged_only =
     (if staged_only then [''git'', ''diff'', ''--cached'']
      else [''git'', ''diff'', target_branch @ ''...HEAD''])"

text \<open>
  \<^verbatim>\<open>subprocess.run(cmd, capture_output=True, text=True, check=True)\<close> raises
  \<^verbatim>\<open>CalledProcessError\<close> exactly when the return code is not zero, and the method's only
  handler catches exactly that class, logs its \<^verbatim>\<open>stderr\<close> and returns \<^verbatim>\<open>None\<close>. Any other
  exception of the run leaves the method.
\<close>

definition get_git_diff :: "world \<Rightarrow> string \<Rightarrow> bool \<Rightarrow> event list \<times> (exn + string option)" where
  "get_git_diff w target_branch staged_only =
     (let cmd = git_cmd target_branch staged_only in
      case subprocess_run w cmd of
        RunRaises e \<Rightarrow> ([Subprocess cmd], Inl e)
      | Completed returncode out err \<Rightarrow>
          if returncode \<noteq> 0
          then ([Subprocess cmd, Log ERROR (''Error getting git diff: '' @ err)], Inr None)
          else ([Subprocess cmd], Inr (Some out)))"

subsection \<open>review\_code\<close>

text \<open>
  The system prompt. The non-ASCII marks of the source file are kept as the bytes the
  file holds.
\<close>

definition mark_critical :: string where
  "mark_critical = [CHR 0xC3, CHR 0xB0, CHR 0xC5, CHR 0xB8, CHR 0xE2, CHR 0x80, CHR 0x9D, CHR 0xC2, CHR 0xB4]"

definition mark_warning :: string where
  "mark_warning = [CHR 0xC3, CHR 0xB0, CHR 0xC5, CHR 0xB8, CHR 0xC5, CHR 0xB8, CHR 0xC2, CHR 0xA1]"

definition mark_suggestion :: string where
  "mark_suggestion = [CHR 0xC3, CHR 0xB0, CHR 0xC5, CHR 0xB8, CHR 0xC5, CHR 0xB8, CHR 0xC2, CHR 0xA2]"

definition mark_positive :: string where
  "mark_positive = [CHR 0xC3, CHR 0xA2, CHR 0xC5, CHR 0x93, CHR 0xE2, CHR 0x80, CHR 0xA6]"

definition mark_robot :: string where
  "mark_robot = [CHR 0xC3, CHR 0xB0, CHR 0xC5, CHR 0xB8, CHR 0xC2, CHR 0xA4, CHR 0xE2, CHR 0x80, CHR 0x93]"

definition mark_chart :: string where
  "mark_chart = [CHR 0xC3, CHR 0xB0, CHR 0xC5, CHR 0xB8, CHR 0xE2, CHR 0x80, CHR 0x9C, CHR 0xC5, CHR 0xA0]"

definition system_prompt :: string where
  "system_prompt =
     ''You are an expert code reviewer. Analyze the provided git diff and provide a thorough, actionable code review.\<newline>\<newline>Focus on:\<newline>1. **Bugs & Logic Errors**: Potential runtime errors, edge cases, null/undefined handling\<newline>2. **Security Issues**: Vulnerabilities, injection risks, authentication/authorization problems\<newline>3. **Performance**: Inefficient algorithms, memory leaks, unnecessary computations\<newline>4. **Code Quality**: Readability, maintainability, naming conventions, complexity\<newline>5. **Best Practices**: Language-specific idioms, design patterns, error handling\<newline>\<newline>Format your review as:\<newline>## Summary\<newline>Brief overview of changes and overall assessment\<newline>\<newline>## Critical Issues (''
     @ mark_critical @
     '')\<newline>Issues that must be fixed before merge\<newline>\<newline>## Warnings (''
     @ mark_warning @
     '')\<newline>Important issues to address\<newline>\<newline>## Suggestions (''
     @ mark_suggestion @
     '')\<newline>Nice-to-have improvements\<newline>\<newline>## Positive Notes (''
     @ mark_positive @
     '')\<newline>What was done well\<newline>\<newline>Be specific, reference line numbers when possible, and provide code examples for fixes.''"

text \<open>The user prompt, the f-string of the source with its two interpolations.\<close>

definition user_prompt :: "string \<Rightarrow> string \<Rightarrow> string" where
  "user_prompt diff_content context =
     ''Review this code change:\<newline>\<newline>'' @ context @
     ''\<newline>\<newline>```diff\<newline>'' @ diff_content @
     ''\<newline>```\<newline>\<newline>Provide a detailed review following the format specified.''"

definition create_request :: "reviewer \<Rightarrow> string \<Rightarrow> string \<Rightarrow> request" where
  "create_request self diff_content context =
     \<lparr>model = reviewer_model self,
      max_tokens = 4000,
      messages = [(''user'', user_prompt diff_content context)],
      system = system_prompt\<rparr>"

text \<open>
  \<^verbatim>\<open>message.content[0].text\<close>: an empty list raises \<^verbatim>\<open>IndexError\<close>, a block without the
  attribute raises \<^verbatim>\<open>AttributeError\<close>.
\<close>

fun first_block_text :: "content_block list \<Rightarrow> exn + string" where
  "first_block_text [] = Inl (OtherException ''IndexError'' ''list index out of range'')"
| "first_block_text (TextBlock t # bs) = Inr t"
| "first_block_text (NonTextBlock cls # bs) =
     Inl (OtherException ''AttributeError''
            ([CHR 0x27] @ cls @ [CHR 0x27] @ '' object has no attribute '' @ [CHR 0x27] @ ''text'' @ [CHR 0x27]))"

text \<open>The body of the \<^verbatim>\<open>try\<close> block: the call, then the first block's text.\<close>

definition review_code_try :: "world \<Rightarrow> request \<Rightarrow> exn + string" where
  "review_code_try w req =
     (case messages_create w req of
        CreateRaises e \<Rightarrow> Inl e
      | Message blocks \<Rightarrow> first_block_text blocks)"

text \<open>
  The two handlers, in the order of the source: \<^verbatim>\<open>except anthropic.APIError\<close>, then
  \<^verbatim>\<open>except Exception\<close>.
\<close>

fun review_code_except :: "exn \<Rightarrow> event list \<times> (exn + string option)" where
  "review_code_except (APIError m) =
     ([Log ERROR (''Anthropic API Error: '' @ m)], Inr None)"
| "review_code_except e =
     ([Log ERROR (''Unexpected error during API call: '' @ exn_name e @ '': '' @ exn_str e)],
      Inr None)"

definition review_code :: "reviewer \<Rightarrow> world \<Rightarrow> string \<Rightarrow> string \<Rightarrow> event list \<times> (exn + string option)" where
  "review_code self w diff_content context =
     (let req = create_request self diff_content context in
      case review_code_try w req of
        Inr t \<Rightarrow> ([MessagesCreate req], Inr (Some t))
      | Inl e \<Rightarrow> (MessagesCreate req # fst (review_code_except e), snd (review_code_except e)))"

subsection \<open>format\_review\<close>

definition HEADER :: string where "HEADER = CHR 0x1B # ''[95m''"
definition OKBLUE :: string where "OKBLUE = CHR 0x1B # ''[94m''"
definition OKGREEN :: string where "OKGREEN = CHR 0x1B # ''[92m''"
definition WARNING :: string where "WARNING = CHR 0x1B # ''[93m''"
definition FAIL :: string where "FAIL = CHR 0x1B # ''[91m''"
definition ENDC :: string where "ENDC = CHR 0x1B # ''[0m''"
definition BOLD :: string where "BOLD = CHR 0x1B # ''[1m''"

text \<open>The argument of the \<^verbatim>\<open>print\<close> call that the loop body makes for one line.\<close>

definition format_line :: "string \<Rightarrow> string" where
  "format_line line =
     (if startswith line ''## Critical'' then FAIL @ BOLD @ line @ ENDC
      else if startswith line ''## Warning'' then WARNING @ BOLD @ line @ ENDC
      else if startswith line ''## Suggestion'' then OKBLUE @ BOLD @ line @ ENDC
      else if startswith line ''## Positive'' then OKGREEN @ BOLD @ line @ ENDC
      else if startswith line ''##'' then BOLD @ line @ ENDC
      else line)"

text \<open>The \<^verbatim>\<open>for\<close> loop over the lines.\<close>

fun print_lines :: "string list \<Rightarrow> event list" where
  "print_lines [] = []"
| "print_lines (line # lines) = Print (format_line line) # print_lines lines"

definition rule80 :: string where
  "rule80 = replicate 80 (CHR ''='')"

definition banner :: "event list" where
  "banner =
     [Print (''\<newline>'' @ rule80),
      Print (BOLD @ HEADER @ mark_robot @ '' AI CODE REVIEW'' @ ENDC),
      Print (rule80 @ ''\<newline>'')]"

definition closing :: "event list" where
  "closing = [Print (''\<newline>'' @ rule80 @ ''\<newline>'')]"

definition format_review :: "string \<Rightarrow> event list" where
  "format_review review_text = banner @ print_lines (split_nl review_text) @ closing"

section \<open>The entry point\<close>

definition msg_no_changes :: string where
  "msg_no_changes = ''No changes found to review.''"

definition msg_getting :: string where
  "msg_getting = mark_chart @ '' Getting git diff...''"

definition msg_reviewing :: string where
  "msg_reviewing = mark_robot @ '' Reviewing code with Claude Haiku 4.5...\<newline>''"

definition msg_failed :: string where
  "msg_failed = ''Failed to get review from API. Check the error messages above for details.''"

definition msg_file_not_found :: "string \<Rightarrow> string" where
  "msg_file_not_found path = ''Error: File '' @ [CHR 0x27] @ path @ [CHR 0x27] @ '' not found''"

definition setup_help :: "string \<Rightarrow> event list" where
  "setup_help m =
     [Log ERROR (''Error: '' @ m),
      Log ERROR ''\<newline>To set up your API key:'',
      Log ERROR (''  export ANTHROPIC_API_KEY='' @ [CHR 0x27] @ ''your-api-key-here'' @ [CHR 0x27])]"

text \<open>
  ``Get the diff'': the branch on \<^verbatim>\<open>args.diff_file\<close>. The result is either the way the
  run ends here or the diff the run goes on with.
\<close>

definition main_get_diff :: "args \<Rightarrow> world \<Rightarrow> event list \<times> (outcome + string)" where
  "main_get_diff a w =
     (if truthy_opt (arg_diff_file a) then
        (let path = the (arg_diff_file a) in
         case open_read w path of
           Contents diff_content \<Rightarrow> ([OpenFile path], Inr diff_content)
         | ReadRaises (FileNotFoundError m) \<Rightarrow>
             ([OpenFile path, Log ERROR (msg_file_not_found path)], Inl (Exit 1))
         | ReadRaises e \<Rightarrow> ([OpenFile path], Inl (Uncaught e)))
      else
        (case get_git_diff w (arg_target_branch a) (arg_staged a) of
           (evs, Inl e) \<Rightarrow> (Log INFO msg_getting # evs, Inl (Uncaught e))
         | (evs, Inr diff_content) \<Rightarrow>
             if \<not> truthy_opt diff_content
             then (Log INFO msg_getting # evs @ [Log INFO msg_no_changes], Inl (Exit 1))
             else if \<not> truthy (strip (the diff_content))
             then (Log INFO msg_getting # evs @ [Log INFO msg_no_changes], Inl (Exit 0))
             else (Log INFO msg_getting # evs, Inr (the diff_content))))"

text \<open>``Review the code'': the call of the reviewer and the branch on its result.\<close>

definition main_review :: "reviewer \<Rightarrow> args \<Rightarrow> world \<Rightarrow> string \<Rightarrow> event list \<times> outcome" where
  "main_review r a w diff_content =
     (case review_code r w diff_content (arg_context a) of
        (evs, Inl e) \<Rightarrow> (Log INFO msg_reviewing # evs, Uncaught e)
      | (evs, Inr review) \<Rightarrow>
          if truthy_opt review
          then (Log INFO msg_reviewing # evs @ format_review (the review), Returned)
          else (Log INFO msg_reviewing # evs @ [Log ERROR msg_failed], Exit 1))"

definition main :: "args \<Rightarrow> world \<Rightarrow> event list \<times> outcome" where
  "main a w =
     (case CodeReviewer_init None w of
        Inl (ValueError m) \<Rightarrow> (setup_help m, Exit 1)
      | Inl e \<Rightarrow> ([], Uncaught e)
      | Inr r \<Rightarrow>
          (case main_get_diff a w of
             (evs, Inl out) \<Rightarrow> (evs, out)
           | (evs, Inr diff_content) \<Rightarrow>
               (evs @ fst (main_review r a w diff_content),
                snd (main_review r a w diff_content))))"

section \<open>Observing a run\<close>

text \<open>The events that leave the process: a subprocess run or a call of the remote service.\<close>

fun is_call :: "event \<Rightarrow> bool" where
  "is_call (Subprocess cmd) = True"
| "is_call (MessagesCreate req) = True"
| "is_call ev = False"

text \<open>
  A world whose collaborators answer the same whatever they are asked, as a test double
  does: the environment value, the result of reading any file, the result of any
  subprocess run, the result of any call of the service.
\<close>

definition mk_world :: "string option \<Rightarrow> read_result \<Rightarrow> run_result \<Rightarrow> create_result \<Rightarrow> world" where
  "mk_world key rd run resp =
     \<lparr>getenv_api_key = key, open_read = (\<lambda>path. rd),
      subprocess_run = (\<lambda>cmd. run), messages_create = (\<lambda>req. resp)\<rparr>"

definition canned_review :: create_result where
  "canned_review = Message [TextBlock ''## Summary\<newline>Looks fine.'']"

text \<open>
  A \<^verbatim>\<open>print\<close> that shows a line with nothing but style marks around it: in front one
  of the colour-and-bold sequences of the renderer or nothing, behind it the reset
  sequence or nothing.
\<close>

definition wraps :: "string \<Rightarrow> event \<Rightarrow> bool" where
  "wraps line ev =
     (\<exists>pre suf. ev = Print (pre @ line @ suf)
        \<and> pre \<in> {[], BOLD, FAIL @ BOLD, WARNING @ BOLD, OKBLUE @ BOLD, OKGREEN @ BOLD}
        \<and> suf \<in> {[], ENDC})"

text \<open>
  The parts of the user prompt by name: the instruction line that opens it, the
  instruction that closes it, the blank line between two parts, and a diff inside its
  fence.
\<close>

definition instruction_line :: string where
  "instruction_line = ''Review this code change:''"

definition trailing_instruction :: string where
  "trailing_instruction = ''Provide a detailed review following the format specified.''"

definition blank_line :: string where
  "blank_line = ''\<newline>\<newline>''"

definition fenced :: "string \<Rightarrow> string" where
  "fenced d = ''```diff\<newline>'' @ d @ ''\<newline>```''"

text \<open>A reviewer as the constructor builds it from the key \<^verbatim>\<open>sk-test\<close>.\<close>

definition demo_reviewer :: reviewer where
  "demo_reviewer = \<lparr>api_key = ''sk-test'', reviewer_model = ''claude-haiku-4-5''\<rparr>"

text \<open>
  Parts that occur in a text one after the other, without overlap: \<open>after_first p s\<close> is
  what follows the first occurrence of \<open>p\<close> in \<open>s\<close>, and \<open>in_order\<close> looks for each part
  behind the one before. Taking the first occurrence each time loses nothing
  (\<open>in_order_Cons_iff\<close> below).
\<close>

fun after_first :: "string \<Rightarrow> string \<Rightarrow> string option" where
  "after_first p [] = (if p = [] then Some [] else None)"
| "after_first p (c # s) =
     (if prefix p (c # s) then Some (drop (length p) (c # s)) else after_first p s)"

fun in_order :: "string list \<Rightarrow> string \<Rightarrow> bool" where
  "in_order [] s = True"
| "in_order (p # ps) s =
     (case after_first p s of None \<Rightarrow> False | Some r \<Rightarrow> in_order ps r)"

section \<open>Basic facts\<close>

lemma init_with_key:
  "getenv_api_key w = Some k \<Longrightarrow> k \<noteq> [] \<Longrightarrow>
   CodeReviewer_init None w = Inr \<lparr>api_key = k, reviewer_model = ''claude-haiku-4-5''\<rparr>"
  by (simp add: CodeReviewer_init_def py_or_def truthy_def)


lemma print_lines_no_log: "Log l m \<notin> set (print_lines ls)"
  by (induction ls) auto

lemma format_review_no_log: "Log l m \<notin> set (format_review t)"
  by (simp add: format_review_def banner_def closing_def print_lines_no_log)

lemma review_code_shape:
  "\<exists>rest v. review_code r w c ctx = (MessagesCreate (create_request r c ctx) # rest, Inr v)
     \<and> (\<forall>m. Log INFO m \<notin> set rest)"
proof (cases "review_code_try w (create_request r c ctx)")
  case (Inl e)
  then show ?thesis
    by (cases e) (simp_all add: review_code_def)
next
  case (Inr t)
  then show ?thesis
    by (simp add: review_code_def)
qed

lemma main_review_shape:
  "\<exists>rest out. main_review r a w c =
       (Log INFO msg_reviewing # MessagesCreate (create_request r c (arg_context a)) # rest, out)
     \<and> Log INFO msg_no_changes \<notin> set rest \<and> out \<noteq> Exit 0"
proof -
  obtain rest v where rc: "review_code r w c (arg_context a) =
      (MessagesCreate (create_request r c (arg_context a)) # rest, Inr v)"
    and nolog: "\<forall>m. Log INFO m \<notin> set rest"
    using review_code_shape by blast
  show ?thesis
    using rc nolog by (simp add: main_review_def format_review_no_log)
qed

lemma strip_blank: "strip ''   \<newline>'' = []"
  by (simp add: strip_def isspace_def)

lemma startswith_prefix: "startswith s p = prefix p s"
proof
  assume "startswith s p"
  then have "s = p @ drop (length p) s"
    by (metis append_take_drop_id startswith_def)
  then show "prefix p s"
    by (metis prefixI)
next
  assume "prefix p s"
  then show "startswith s p"
    by (auto simp add: startswith_def prefix_def)
qed

lemma two_prefixes: "prefix p s \<Longrightarrow> prefix q s \<Longrightarrow> \<not> prefix p q \<Longrightarrow> \<not> prefix q p \<Longrightarrow> False"
  using prefix_same_cases by blast

lemma split_nl_not_Nil: "split_nl s \<noteq> []"
  by (induction s) (auto split: list.splits)

lemma join_split_nl: "join_nl (split_nl s) = s"
proof (induction s)
  case Nil
  show ?case by simp
next
  case (Cons c cs)
  obtain l ls where sp: "split_nl cs = l # ls"
    using split_nl_not_Nil by (cases "split_nl cs") auto
  show ?case
  proof (cases "c = CHR 0x0A")
    case True
    then show ?thesis using Cons sp by simp
  next
    case False
    then show ?thesis using Cons sp by (cases ls) simp_all
  qed
qed

lemma length_split_nl: "length (split_nl s) = Suc (count_list s (CHR 0x0A))"
proof (induction s)
  case Nil
  show ?case by simp
next
  case (Cons c cs)
  obtain l ls where sp: "split_nl cs = l # ls"
    using split_nl_not_Nil by (cases "split_nl cs") auto
  show ?case using Cons sp by simp
qed

lemma split_nl_no_newline: "CHR 0x0A \<notin> set (concat (split_nl s))"
proof (induction s)
  case Nil
  show ?case by simp
next
  case (Cons c cs)
  obtain l ls where sp: "split_nl cs = l # ls"
    using split_nl_not_Nil by (cases "split_nl cs") auto
  show ?case using Cons sp by auto
qed

lemma format_line_wraps: "wraps line (Print (format_line line))"
proof -
  have "\<exists>pre suf. format_line line = pre @ line @ suf
        \<and> pre \<in> {[], BOLD, FAIL @ BOLD, WARNING @ BOLD, OKBLUE @ BOLD, OKGREEN @ BOLD}
        \<and> suf \<in> {[], ENDC}"
  proof (cases "format_line line = line")
    case True
    then have "format_line line = [] @ line @ []" by simp
    then show ?thesis by blast
  next
    case False
    then consider "format_line line = (FAIL @ BOLD) @ line @ ENDC"
      | "format_line line = (WARNING @ BOLD) @ line @ ENDC"
      | "format_line line = (OKBLUE @ BOLD) @ line @ ENDC"
      | "format_line line = (OKGREEN @ BOLD) @ line @ ENDC"
      | "format_line line = BOLD @ line @ ENDC"
      by (auto simp add: format_line_def split: if_splits)
    then show ?thesis
      by cases blast+
  qed
  then show ?thesis by (auto simp add: wraps_def)
qed

lemma print_lines_wraps: "list_all2 wraps ls (print_lines ls)"
  by (induction ls) (simp_all add: format_line_wraps)

lemma print_lines_map: "print_lines ls = map (\<lambda>l. Print (format_line l)) ls"
  by (induction ls) simp_all

lemma drop_append_short: "n \<le> length xs \<Longrightarrow> drop n (xs @ ys) = drop n xs @ ys"
  by simp

lemma after_first_prefix: "prefix p s \<Longrightarrow> after_first p s = Some (drop (length p) s)"
  by (cases s) simp_all

lemma after_first_Some: "after_first p s = Some r \<Longrightarrow> \<exists>g. s = g @ p @ r"
proof (induction s)
  case Nil
  then show ?case by (simp split: if_splits)
next
  case (Cons c s)
  show ?case
  proof (cases "prefix p (c # s)")
    case True
    with Cons.prems have r: "r = drop (length p) (c # s)" by simp
    from True obtain zs where zs: "c # s = p @ zs"
      by (auto simp add: prefix_def)
    have "drop (length p) (p @ zs) = zs" by simp
    with r zs have "r = zs" by simp
    with zs have "c # s = [] @ p @ r" by simp
    then show ?thesis by blast
  next
    case False
    with Cons.prems have "after_first p s = Some r" by simp
    then obtain g where "s = g @ p @ r" using Cons.IH by blast
    then have "c # s = (c # g) @ p @ r" by simp
    then show ?thesis by blast
  qed
qed

lemma after_first_complete: "\<exists>r'. after_first p (g @ p @ r) = Some r' \<and> suffix r r'"
proof (induction g)
  case Nil
  have "after_first p (p @ r) = Some (drop (length p) (p @ r))"
    by (rule after_first_prefix) simp
  then show ?case by simp
next
  case (Cons x g)
  show ?case
  proof (cases "prefix p ((x # g) @ p @ r)")
    case True
    then have "after_first p ((x # g) @ p @ r) = Some (drop (length p) (((x # g) @ p) @ r))"
      using after_first_prefix by fastforce
    moreover have "drop (length p) (((x # g) @ p) @ r) = drop (length p) ((x # g) @ p) @ r"
      by (rule drop_append_short) simp
    ultimately show ?thesis
      by (metis suffixI)
  next
    case False
    then show ?thesis using Cons.IH by simp
  qed
qed

lemma in_order_suffix: "in_order ps r \<Longrightarrow> suffix r r' \<Longrightarrow> in_order ps r'"
proof (induction ps arbitrary: r r')
  case Nil
  show ?case by simp
next
  case (Cons p ps)
  from Cons.prems(1) obtain q where q: "after_first p r = Some q" and io: "in_order ps q"
    by (auto split: option.splits)
  from q obtain g where g: "r = g @ p @ q" using after_first_Some by blast
  from Cons.prems(2) obtain x where "r' = x @ r" by (auto simp add: suffix_def)
  with g have "r' = (x @ g) @ p @ q" by simp
  then obtain q' where q': "after_first p r' = Some q'" and sq: "suffix q q'"
    using after_first_complete by metis
  from Cons.IH [OF io sq] q' show ?case by simp
qed

lemma in_order_Cons_iff:
  "in_order (p # ps) s \<longleftrightarrow> (\<exists>g r. s = g @ p @ r \<and> in_order ps r)"
proof
  assume "in_order (p # ps) s"
  then obtain q where q: "after_first p s = Some q" and io: "in_order ps q"
    by (auto split: option.splits)
  from q obtain g where "s = g @ p @ q" using after_first_Some by blast
  with io show "\<exists>g r. s = g @ p @ r \<and> in_order ps r" by blast
next
  assume "\<exists>g r. s = g @ p @ r \<and> in_order ps r"
  then obtain g r where s: "s = g @ p @ r" and io: "in_order ps r" by blast
  obtain r' where r': "after_first p s = Some r'" and sf: "suffix r r'"
    using after_first_complete s by blast
  from in_order_suffix [OF io sf] r' show "in_order (p # ps) s" by simp
qed

lemma in_orderI: "in_order ps r \<Longrightarrow> in_order (p # ps) (g @ p @ r)"
  using in_order_Cons_iff by blast

section \<open>The credential gate\<close>


section \<open>Failure of the version-control tool\<close>

text \<open>
  Claim C7. When the version-control tool ends with a return code other than zero,
  \<^verbatim>\<open>get_git_diff\<close> runs the tool once, logs the tool's stderr at error level and returns
  \<^verbatim>\<open>None\<close> as a value (no exception leaves the method); the entry point, called with a
  credential and without a diff file, then ends with \<^verbatim>\<open>sys.exit(1)\<close>.
\<close>

theorem git_failure_is_absent:
  assumes key: "getenv_api_key w = Some k" "k \<noteq> []"
    and nofile: "\<not> truthy_opt (arg_diff_file a)"
    and run: "subprocess_run w (git_cmd (arg_target_branch a) (arg_staged a)) = Completed rc out err"
    and rc: "rc \<noteq> 0"
  shows "get_git_diff w (arg_target_branch a) (arg_staged a) =
           ([Subprocess (git_cmd (arg_target_branch a) (arg_staged a)),
             Log ERROR (''Error getting git diff: '' @ err)], Inr None)
       \<and> main a w =
           ([Log INFO msg_getting,
             Subprocess (git_cmd (arg_target_branch a) (arg_staged a)),
             Log ERROR (''Error getting git diff: '' @ err),
             Log INFO msg_no_changes], Exit 1)"
proof -
  have g: "get_git_diff w (arg_target_branch a) (arg_staged a) =
           ([Subprocess (git_cmd (arg_target_branch a) (arg_staged a)),
             Log ERROR (''Error getting git diff: '' @ err)], Inr None)"
    using run rc by (simp add: get_git_diff_def)
  have "main_get_diff a w =
           ([Log INFO msg_getting,
             Subprocess (git_cmd (arg_target_branch a) (arg_staged a)),
             Log ERROR (''Error getting git diff: '' @ err),
             Log INFO msg_no_changes], Inl (Exit 1))"
    using nofile g by (simp add: main_get_diff_def)
  then show ?thesis
    using g key by (simp add: main_def init_with_key)
qed

theorem git_failure_is_absent_witness:
  "(128::int) \<noteq> 0
   \<and> get_git_diff
         (mk_world (Some ''sk-test'') (Contents '''')
            (Completed 128 '''' ''fatal: bad revision'') canned_review) ''main'' False =
       ([Subprocess [''git'', ''diff'', ''main...HEAD''],
         Log ERROR ''Error getting git diff: fatal: bad revision''], Inr None)
   \<and> main default_args
         (mk_world (Some ''sk-test'') (Contents '''')
            (Completed 128 '''' ''fatal: bad revision'') canned_review) =
       ([Log INFO msg_getting,
         Subprocess [''git'', ''diff'', ''main...HEAD''],
         Log ERROR ''Error getting git diff: fatal: bad revision'',
         Log INFO msg_no_changes], Exit 1)"
  using git_failure_is_absent
    [of "mk_world (Some ''sk-test'') (Contents '''')
           (Completed 128 '''' ''fatal: bad revision'') canned_review"
        "''sk-test''" default_args 128 "''''" "''fatal: bad revision''"]
  by (simp add: mk_world_def default_args_def git_cmd_def)

section \<open>An empty diff from the version-control tool\<close>

text \<open>
  Claim C1. The entry point is run with a credential and without a diff file, and the
  version-control tool ends with return code zero. When the tool's output is exactly the
  empty string, the test \<^verbatim>\<open>if not diff_content\<close>, which is there for the \<^verbatim>\<open>None\<close> of a failed
  tool, is true as well, and the run ends with \<^verbatim>\<open>sys.exit(1)\<close>. When the output is the
  whitespace \<^verbatim>\<open>"   \n"\<close>, the run reaches the second test, on \<^verbatim>\<open>diff_content.strip()\<close>, and
  ends with \<^verbatim>\<open>sys.exit(0)\<close>. In both runs the service is not called.
\<close>

theorem empty_git_output_exits_1:
  "main (a\<lparr>arg_diff_file := None\<rparr>)
        (w\<lparr>getenv_api_key := Some (k # ks), subprocess_run := (\<lambda>cmd. Completed 0 [] err)\<rparr>) =
     ([Log INFO msg_getting,
       Subprocess (git_cmd (arg_target_branch a) (arg_staged a)),
       Log INFO msg_no_changes], Exit 1)
   \<and> main (a\<lparr>arg_diff_file := None\<rparr>)
        (w\<lparr>getenv_api_key := Some (k # ks), subprocess_run := (\<lambda>cmd. Completed 0 ''   \<newline>'' err)\<rparr>) =
     ([Log INFO msg_getting,
       Subprocess (git_cmd (arg_target_branch a) (arg_staged a)),
       Log INFO msg_no_changes], Exit 0)"
  by (simp add: main_def init_with_key main_get_diff_def get_git_diff_def truthy_def strip_blank)

section \<open>Failures of reading the diff file\<close>

text \<open>
  Claim C2, as stated, at a file that exists and cannot be read: the read raises
  \<^verbatim>\<open>PermissionError\<close>, the only handler around the read is for \<^verbatim>\<open>FileNotFoundError\<close>, and
  the exception leaves \<^verbatim>\<open>main\<close>: the run does not end in an exit of the program's own.
\<close>

theorem unreadable_diff_file_uncaught:
  "\<not> explicit_exit (snd (main (default_args\<lparr>arg_diff_file := Some ''changes.diff''\<rparr>)
      (mk_world (Some ''sk-test'')
         (ReadRaises (OtherException ''PermissionError'' ''[Errno 13] Permission denied''))
         (Completed 0 '''' '''') canned_review)))"
  by (simp add: main_def init_with_key main_get_diff_def mk_world_def default_args_def truthy_def)

text \<open>
  Claim C2, amended. The entry point is run with a credential and with a diff file whose
  read raises. If the exception is \<^verbatim>\<open>FileNotFoundError\<close>, the run logs the not-found message
  with the path and ends with \<^verbatim>\<open>sys.exit(1)\<close>. Any other exception of the read is not
  caught: it leaves \<^verbatim>\<open>main\<close> as it was raised, with nothing logged. In both cases nothing
  but the read has happened: no subprocess run and no call of the service.
\<close>

theorem diff_file_read_failure:
  assumes key: "getenv_api_key w = Some k" "k \<noteq> []"
    and dfile: "arg_diff_file a = Some p" "p \<noteq> []"
    and rd: "open_read w p = ReadRaises e"
  shows "main a w =
     (case e of
        FileNotFoundError m \<Rightarrow> ([OpenFile p, Log ERROR (msg_file_not_found p)], Exit 1)
      | _ \<Rightarrow> ([OpenFile p], Uncaught e))"
  using assms
  by (cases e) (simp_all add: main_def init_with_key main_get_diff_def truthy_def)

theorem diff_file_read_failure_witness:
  "main (default_args\<lparr>arg_diff_file := Some ''changes.diff''\<rparr>)
      (mk_world (Some ''sk-test'')
         (ReadRaises (FileNotFoundError ''[Errno 2] No such file or directory''))
         (Completed 0 '''' '''') canned_review) =
     ([OpenFile ''changes.diff'', Log ERROR (msg_file_not_found ''changes.diff'')], Exit 1)
   \<and> main (default_args\<lparr>arg_diff_file := Some ''changes.diff''\<rparr>)
      (mk_world (Some ''sk-test'')
         (ReadRaises (OtherException ''IsADirectoryError'' ''[Errno 21] Is a directory''))
         (Completed 0 '''' '''') canned_review) =
     ([OpenFile ''changes.diff''],
      Uncaught (OtherException ''IsADirectoryError'' ''[Errno 21] Is a directory''))"
  using diff_file_read_failure
    [of "mk_world (Some ''sk-test'')
           (ReadRaises (FileNotFoundError ''[Errno 2] No such file or directory''))
           (Completed 0 '''' '''') canned_review"
        "''sk-test''" "default_args\<lparr>arg_diff_file := Some ''changes.diff''\<rparr>" "''changes.diff''"
        "FileNotFoundError ''[Errno 2] No such file or directory''"]
    diff_file_read_failure
    [of "mk_world (Some ''sk-test'')
           (ReadRaises (OtherException ''IsADirectoryError'' ''[Errno 21] Is a directory''))
           (Completed 0 '''' '''') canned_review"
        "''sk-test''" "default_args\<lparr>arg_diff_file := Some ''changes.diff''\<rparr>" "''changes.diff''"
        "OtherException ''IsADirectoryError'' ''[Errno 21] Is a directory''"]
  by (simp add: mk_world_def)

section \<open>A diff file is reviewed whatever it holds\<close>

text \<open>
  Claim C10. The entry point is run with a credential and with a diff file that is read
  with contents \<open>c\<close>, whatever they are, the empty string and whitespace included. Then
  the run logs that the review starts and calls the service with the user prompt built
  from \<open>c\<close> and the context; it never logs ``No changes found to review.'' and never ends
  with \<^verbatim>\<open>sys.exit(0)\<close>, the two marks of the no-op exit of the version-control path.
\<close>

theorem diff_file_never_short_circuits:
  assumes key: "getenv_api_key w = Some k" "k \<noteq> []"
    and dfile: "arg_diff_file a = Some p" "p \<noteq> []"
    and rd: "open_read w p = Contents c"
  shows "(\<exists>rest. fst (main a w) =
            OpenFile p # Log INFO msg_reviewing #
            MessagesCreate \<lparr>model = ''claude-haiku-4-5'', max_tokens = 4000,
                            messages = [(''user'', user_prompt c (arg_context a))],
                            system = system_prompt\<rparr> # rest)
       \<and> Log INFO msg_no_changes \<notin> set (fst (main a w))
       \<and> snd (main a w) \<noteq> Exit 0"
proof -
  let ?r = "\<lparr>api_key = k, reviewer_model = ''claude-haiku-4-5''\<rparr>"
  obtain rest out where mr: "main_review ?r a w c =
       (Log INFO msg_reviewing # MessagesCreate (create_request ?r c (arg_context a)) # rest, out)"
    and nolog: "Log INFO msg_no_changes \<notin> set rest" and out: "out \<noteq> Exit 0"
    using main_review_shape by blast
  have gd: "main_get_diff a w = ([OpenFile p], Inr c)"
    using dfile rd by (simp add: main_get_diff_def truthy_def)
  have m: "main a w =
      (OpenFile p # Log INFO msg_reviewing # MessagesCreate (create_request ?r c (arg_context a)) # rest, out)"
    using key gd mr by (simp add: main_def init_with_key)
  have neq: "msg_reviewing \<noteq> msg_no_changes"
    by (simp add: msg_reviewing_def msg_no_changes_def mark_robot_def)
  show ?thesis
    using m nolog out neq by (simp add: create_request_def)
qed

theorem diff_file_never_short_circuits_witness:
  "strip '''' = [] \<and> strip ''   \<newline>'' = []
   \<and> (\<exists>rest. fst (main (default_args\<lparr>arg_diff_file := Some ''changes.diff''\<rparr>)
          (mk_world (Some ''sk-test'') (Contents '''') (Completed 0 '''' '''') canned_review)) =
            OpenFile ''changes.diff'' # Log INFO msg_reviewing #
            MessagesCreate \<lparr>model = ''claude-haiku-4-5'', max_tokens = 4000,
                            messages = [(''user'', user_prompt '''' '''')],
                            system = system_prompt\<rparr> # rest)
   \<and> (\<exists>rest. fst (main (default_args\<lparr>arg_diff_file := Some ''changes.diff''\<rparr>)
          (mk_world (Some ''sk-test'') (Contents ''   \<newline>'') (Completed 0 '''' '''') canned_review)) =
            OpenFile ''changes.diff'' # Log INFO msg_reviewing #
            MessagesCreate \<lparr>model = ''claude-haiku-4-5'', max_tokens = 4000,
                            messages = [(''user'', user_prompt ''   \<newline>'' '''')],
                            system = system_prompt\<rparr> # rest)"
  using diff_file_never_short_circuits
    [of "mk_world (Some ''sk-test'') (Contents '''') (Completed 0 '''' '''') canned_review"
        "''sk-test''" "default_args\<lparr>arg_diff_file := Some ''changes.diff''\<rparr>" "''changes.diff''" "''''"]
    diff_file_never_short_circuits
    [of "mk_world (Some ''sk-test'') (Contents ''   \<newline>'') (Completed 0 '''' '''') canned_review"
        "''sk-test''" "default_args\<lparr>arg_diff_file := Some ''changes.diff''\<rparr>" "''changes.diff''" "''   \<newline>''"]
  by (simp add: mk_world_def default_args_def strip_def isspace_def)

section \<open>The renderer\<close>

text \<open>
  Claim C4. The renderer prints, between the banner and the closing rule, one line for
  each line of the review text, in order, and what it prints for a line is \<open>format_line\<close>
  of that line. The style of a printed line is decided by the prefix of the line, with the
  case of the letters as written: a line that starts with \<^verbatim>\<open>## Critical\<close> is printed
  between \<open>FAIL\<close> (red), \<open>BOLD\<close> and the reset \<open>ENDC\<close>; one that starts with
  \<^verbatim>\<open>## Warning\<close> between \<open>WARNING\<close> (yellow), \<open>BOLD\<close> and the reset; \<^verbatim>\<open>## Suggestion\<close> with
  \<open>OKBLUE\<close>; \<^verbatim>\<open>## Positive\<close> with \<open>OKGREEN\<close>; a line that starts with \<^verbatim>\<open>##\<close> and with
  none of the four between \<open>BOLD\<close> and the reset, without colour; every other line is
  printed as it is. The four coloured prefixes exclude each other, so the first rule that
  matches is the only coloured rule that matches. The prefix decides, not the whole
  line: \<^verbatim>\<open>## Critical Issues (something)\<close> is printed in the failure style.
\<close>

theorem format_line_by_prefix:
  "format_review t = banner @ map (\<lambda>l. Print (format_line l)) (split_nl t) @ closing
   \<and> (prefix ''## Critical'' line \<longrightarrow> format_line line = FAIL @ BOLD @ line @ ENDC)
   \<and> (prefix ''## Warning'' line \<longrightarrow> format_line line = WARNING @ BOLD @ line @ ENDC)
   \<and> (prefix ''## Suggestion'' line \<longrightarrow> format_line line = OKBLUE @ BOLD @ line @ ENDC)
   \<and> (prefix ''## Positive'' line \<longrightarrow> format_line line = OKGREEN @ BOLD @ line @ ENDC)
   \<and> (prefix ''##'' line \<and> \<not> prefix ''## Critical'' line \<and> \<not> prefix ''## Warning'' line
        \<and> \<not> prefix ''## Suggestion'' line \<and> \<not> prefix ''## Positive'' line
        \<longrightarrow> format_line line = BOLD @ line @ ENDC)
   \<and> (\<not> prefix ''##'' line \<longrightarrow> format_line line = line)"
proof -
  have cw: "prefix ''## Warning'' line \<Longrightarrow> \<not> prefix ''## Critical'' line"
    by (rule notI) (erule (1) two_prefixes; simp)
  have cs: "prefix ''## Suggestion'' line \<Longrightarrow> \<not> prefix ''## Critical'' line"
    by (rule notI) (erule (1) two_prefixes; simp)
  have cp: "prefix ''## Positive'' line \<Longrightarrow> \<not> prefix ''## Critical'' line"
    by (rule notI) (erule (1) two_prefixes; simp)
  have ws: "prefix ''## Suggestion'' line \<Longrightarrow> \<not> prefix ''## Warning'' line"
    by (rule notI) (erule (1) two_prefixes; simp)
  have wp: "prefix ''## Positive'' line \<Longrightarrow> \<not> prefix ''## Warning'' line"
    by (rule notI) (erule (1) two_prefixes; simp)
  have sp: "prefix ''## Positive'' line \<Longrightarrow> \<not> prefix ''## Suggestion'' line"
    by (rule notI) (erule (1) two_prefixes; simp)
  have h: "\<not> prefix ''##'' line \<Longrightarrow> \<not> prefix ''## Critical'' line \<and> \<not> prefix ''## Warning'' line
     \<and> \<not> prefix ''## Suggestion'' line \<and> \<not> prefix ''## Positive'' line"
    by (auto simp add: prefix_def)
  have fr: "format_review t = banner @ map (\<lambda>l. Print (format_line l)) (split_nl t) @ closing"
    by (simp add: format_review_def print_lines_map)
  have rules: "(prefix ''## Critical'' line \<longrightarrow> format_line line = FAIL @ BOLD @ line @ ENDC)
   \<and> (prefix ''## Warning'' line \<longrightarrow> format_line line = WARNING @ BOLD @ line @ ENDC)
   \<and> (prefix ''## Suggestion'' line \<longrightarrow> format_line line = OKBLUE @ BOLD @ line @ ENDC)
   \<and> (prefix ''## Positive'' line \<longrightarrow> format_line line = OKGREEN @ BOLD @ line @ ENDC)
   \<and> (prefix ''##'' line \<and> \<not> prefix ''## Critical'' line \<and> \<not> prefix ''## Warning'' line
        \<and> \<not> prefix ''## Suggestion'' line \<and> \<not> prefix ''## Positive'' line
        \<longrightarrow> format_line line = BOLD @ line @ ENDC)
   \<and> (\<not> prefix ''##'' line \<longrightarrow> format_line line = line)"
    using cw cs cp ws wp sp h by (auto simp add: format_line_def startswith_prefix)
  from fr rules show ?thesis by (rule conjI)
qed

theorem format_line_by_prefix_witness:
  "format_review ''## Critical Issues (something)\<newline>\<newline>## Warnings\<newline>fine'' =
     banner @
     [Print (FAIL @ BOLD @ ''## Critical Issues (something)'' @ ENDC),
      Print '''',
      Print (WARNING @ BOLD @ ''## Warnings'' @ ENDC),
      Print ''fine''] @ closing
   \<and> format_line ''## Critical Issues (something)'' = FAIL @ BOLD @ ''## Critical Issues (something)'' @ ENDC
   \<and> format_line ''## Warnings'' = WARNING @ BOLD @ ''## Warnings'' @ ENDC
   \<and> format_line ''## Suggestions (x)'' = OKBLUE @ BOLD @ ''## Suggestions (x)'' @ ENDC
   \<and> format_line ''## Positive Notes'' = OKGREEN @ BOLD @ ''## Positive Notes'' @ ENDC
   \<and> format_line ''## Summary'' = BOLD @ ''## Summary'' @ ENDC
   \<and> format_line ''## critical'' = BOLD @ ''## critical'' @ ENDC
   \<and> format_line ''Looks fine. ## Critical'' = ''Looks fine. ## Critical''
   \<and> format_line '''' = ''''"
  using format_line_by_prefix
      [where t = "''## Critical Issues (something)\<newline>\<newline>## Warnings\<newline>fine''"
         and line = "''## Critical Issues (something)''"]
    format_line_by_prefix [where line = "''## Warnings''"]
    format_line_by_prefix [where line = "''## Suggestions (x)''"]
    format_line_by_prefix [where line = "''## Positive Notes''"]
    format_line_by_prefix [where line = "''## Summary''"]
    format_line_by_prefix [where line = "''## critical''"]
    format_line_by_prefix [where line = "''Looks fine. ## Critical''"]
    format_line_by_prefix [where line = "''fine''"]
    format_line_by_prefix [where line = "''''"]
  by simp

text \<open>
  Claim C6. Between the banner and the closing rule the renderer makes one \<^verbatim>\<open>print\<close> call
  for each piece of the split of the review text at line feeds, in the order of the
  pieces, and each call shows its piece with only style marks around it. The pieces are
  the lines of the text: joined again with line feeds they give the text back, so no
  line is lost, repeated or reordered and empty lines are kept; there is one piece more
  than there are line feeds, and no piece holds a line feed.
\<close>

theorem format_review_every_line_once:
  "(\<exists>body. format_review t = banner @ body @ closing
       \<and> list_all2 wraps (split_nl t) body)
   \<and> join_nl (split_nl t) = t
   \<and> length (split_nl t) = Suc (count_list t (CHR 0x0A))
   \<and> CHR 0x0A \<notin> set (concat (split_nl t))"
proof -
  have "format_review t = banner @ print_lines (split_nl t) @ closing"
    by (simp add: format_review_def)
  then have "\<exists>body. format_review t = banner @ body @ closing
       \<and> list_all2 wraps (split_nl t) body"
    using print_lines_wraps by blast
  then show ?thesis
    using join_split_nl length_split_nl split_nl_no_newline by blast
qed

section \<open>The user prompt\<close>

text \<open>
  Claim C3, as stated, at the diff \<^verbatim>\<open>D\<close> and the context \<^verbatim>\<open>CTX\<close>: the context does not come
  before the instruction line. The prompt opens with the instruction line, and behind
  the context there is no instruction line any more.
\<close>

theorem context_not_before_instruction:
  "\<not> in_order [''CTX'', instruction_line, fenced ''D'', trailing_instruction]
        (user_prompt ''D'' ''CTX'')"
  by (simp add: user_prompt_def instruction_line_def fenced_def trailing_instruction_def)

text \<open>
  Claim C3, amended. For every diff and every context, the user prompt is, in this
  order: the literal instruction line \<^verbatim>\<open>Review this code change:\<close>, a blank line, the
  context (possibly empty), a blank line, the diff inside a fence labelled \<^verbatim>\<open>diff\<close>, a
  blank line, and the closing instruction to follow the format specified.
\<close>

theorem user_prompt_order:
  "user_prompt d c =
     instruction_line @ blank_line @ c @ blank_line @ fenced d @ blank_line @ trailing_instruction
   \<and> in_order [instruction_line, c, fenced d, trailing_instruction] (user_prompt d c)"
proof -
  have eq: "user_prompt d c =
     [] @ instruction_line @ blank_line @ c @ blank_line @ fenced d @ blank_line @ trailing_instruction @ []"
    by (simp add: user_prompt_def instruction_line_def blank_line_def fenced_def
        trailing_instruction_def)
  have "in_order [] []" by simp
  then have "in_order [trailing_instruction] (blank_line @ trailing_instruction @ [])"
    by (rule in_orderI)
  then have "in_order [fenced d, trailing_instruction]
      (blank_line @ fenced d @ blank_line @ trailing_instruction @ [])"
    by (rule in_orderI)
  then have "in_order [c, fenced d, trailing_instruction]
      (blank_line @ c @ blank_line @ fenced d @ blank_line @ trailing_instruction @ [])"
    by (rule in_orderI)
  then have "in_order [instruction_line, c, fenced d, trailing_instruction]
      ([] @ instruction_line @ blank_line @ c @ blank_line @ fenced d @ blank_line @ trailing_instruction @ [])"
    by (rule in_orderI)
  with eq show ?thesis by simp
qed

text \<open>
  Claim C5. For every diff (empty or not) and every context, the user prompt holds the
  diff unchanged between the opening fence \<^verbatim>\<open>```diff\<close> and the closing fence, each on a
  line of its own, and holds the context unchanged. The context is put at a fixed place,
  behind the first 26 characters of the prompt for the empty context, and adds nothing
  but its own characters; the prompt for the empty context is the fixed text around the
  fenced diff, with the two blank lines that otherwise surround the context left next
  to each other.
\<close>

theorem user_prompt_embeds_diff_and_context:
  "sublist (fenced d) (user_prompt d c)
   \<and> sublist c (user_prompt d c)
   \<and> user_prompt d c = take 26 (user_prompt d []) @ c @ drop 26 (user_prompt d [])
   \<and> user_prompt d [] =
       instruction_line @ blank_line @ blank_line @ fenced d @ blank_line @ trailing_instruction
   \<and> length (user_prompt d c) = length (user_prompt d []) + length c"
proof -
  have a: "user_prompt d c = (instruction_line @ blank_line @ c @ blank_line) @ fenced d
      @ (blank_line @ trailing_instruction)"
    by (simp add: user_prompt_def instruction_line_def blank_line_def fenced_def
        trailing_instruction_def)
  have b: "user_prompt d c = (instruction_line @ blank_line) @ c
      @ (blank_line @ fenced d @ blank_line @ trailing_instruction)"
    by (simp add: user_prompt_def instruction_line_def blank_line_def fenced_def
        trailing_instruction_def)
  have s1: "sublist (fenced d) (user_prompt d c)"
    unfolding sublist_def using a by blast
  have s2: "sublist c (user_prompt d c)"
    unfolding sublist_def using b by blast
  have t: "user_prompt d c = take 26 (user_prompt d []) @ c @ drop 26 (user_prompt d [])"
    by (simp add: user_prompt_def)
  have e: "user_prompt d [] =
       instruction_line @ blank_line @ blank_line @ fenced d @ blank_line @ trailing_instruction"
    by (simp add: user_prompt_def instruction_line_def blank_line_def fenced_def
        trailing_instruction_def)
  have l: "length (user_prompt d c) = length (user_prompt d []) + length c"
    by (simp add: user_prompt_def)
  from s1 s2 t e l show ?thesis by blast
qed

section \<open>The review client\<close>

text \<open>
  Claim C9. \<^verbatim>\<open>review_code\<close> always returns a value, whatever the service does: a response
  or an exception of a class deriving from \<^verbatim>\<open>Exception\<close>. It calls the service exactly once.
  When the response's first content block has a text, that text is returned and nothing
  is logged. When the service raises an API error, the error is logged and \<^verbatim>\<open>None\<close> is
  returned; when it raises anything else, or the response has no content block, or the
  first block has no text, the class name and message of the error are logged and
  \<^verbatim>\<open>None\<close> is returned. The returned value is the same \<^verbatim>\<open>None\<close> in all failures: only the
  log tells them apart.
\<close>

theorem review_code_never_raises:
  "(\<exists>v. snd (review_code r w c ctx) = Inr v)
   \<and> filter is_call (fst (review_code r w c ctx)) = [MessagesCreate (create_request r c ctx)]
   \<and> (\<forall>t bs. messages_create w (create_request r c ctx) = Message (TextBlock t # bs) \<longrightarrow>
         review_code r w c ctx = ([MessagesCreate (create_request r c ctx)], Inr (Some t)))
   \<and> (\<forall>m. messages_create w (create_request r c ctx) = CreateRaises (APIError m) \<longrightarrow>
         review_code r w c ctx =
           ([MessagesCreate (create_request r c ctx),
             Log ERROR (''Anthropic API Error: '' @ m)], Inr None))
   \<and> (\<forall>e. messages_create w (create_request r c ctx) = CreateRaises e \<and> (\<forall>m. e \<noteq> APIError m) \<longrightarrow>
         review_code r w c ctx =
           ([MessagesCreate (create_request r c ctx),
             Log ERROR (''Unexpected error during API call: '' @ exn_name e @ '': '' @ exn_str e)],
            Inr None))
   \<and> (messages_create w (create_request r c ctx) = Message [] \<longrightarrow>
         review_code r w c ctx =
           ([MessagesCreate (create_request r c ctx),
             Log ERROR ''Unexpected error during API call: IndexError: list index out of range''],
            Inr None))
   \<and> (\<forall>cls bs. messages_create w (create_request r c ctx) = Message (NonTextBlock cls # bs) \<longrightarrow>
         snd (review_code r w c ctx) = Inr None
         \<and> length (fst (review_code r w c ctx)) = 2)"
proof -
  let ?req = "create_request r c ctx"
  have ex: "\<And>e. \<exists>l. review_code_except e = ([Log ERROR l], Inr None)"
  proof -
    fix e show "\<exists>l. review_code_except e = ([Log ERROR l], Inr None)"
      by (cases e) simp_all
  qed
  have p1: "\<exists>v. snd (review_code r w c ctx) = Inr v"
    using review_code_shape [of r w c ctx] by auto
  have p2: "filter is_call (fst (review_code r w c ctx)) = [MessagesCreate ?req]"
  proof (cases "review_code_try w ?req")
    case (Inl e)
    then show ?thesis using ex [of e] by (auto simp add: review_code_def)
  next
    case (Inr t)
    then show ?thesis by (simp add: review_code_def)
  qed
  have p3: "\<forall>t bs. messages_create w ?req = Message (TextBlock t # bs) \<longrightarrow>
         review_code r w c ctx = ([MessagesCreate ?req], Inr (Some t))"
    by (simp add: review_code_def review_code_try_def)
  have p4: "\<forall>m. messages_create w ?req = CreateRaises (APIError m) \<longrightarrow>
         review_code r w c ctx =
           ([MessagesCreate ?req, Log ERROR (''Anthropic API Error: '' @ m)], Inr None)"
    by (simp add: review_code_def review_code_try_def)
  have p5: "\<forall>e. messages_create w ?req = CreateRaises e \<and> (\<forall>m. e \<noteq> APIError m) \<longrightarrow>
         review_code r w c ctx =
           ([MessagesCreate ?req,
             Log ERROR (''Unexpected error during API call: '' @ exn_name e @ '': '' @ exn_str e)],
            Inr None)"
  proof (intro allI impI)
    fix e
    assume a: "messages_create w ?req = CreateRaises e \<and> (\<forall>m. e \<noteq> APIError m)"
    then show "review_code r w c ctx =
           ([MessagesCreate ?req,
             Log ERROR (''Unexpected error during API call: '' @ exn_name e @ '': '' @ exn_str e)],
            Inr None)"
      by (cases e) (simp_all add: review_code_def review_code_try_def)
  qed
  have p6: "messages_create w ?req = Message [] \<longrightarrow>
         review_code r w c ctx =
           ([MessagesCreate ?req,
             Log ERROR ''Unexpected error during API call: IndexError: list index out of range''],
            Inr None)"
    by (simp add: review_code_def review_code_try_def)
  have p7: "\<forall>cls bs. messages_create w ?req = Message (NonTextBlock cls # bs) \<longrightarrow>
         snd (review_code r w c ctx) = Inr None \<and> length (fst (review_code r w c ctx)) = 2"
    by (simp add: review_code_def review_code_try_def)
  from p1 p2 p3 p4 p5 p6 p7 show ?thesis by blast
qed

theorem review_code_never_raises_witness:
  "review_code demo_reviewer
         (mk_world None (Contents '''') (Completed 0 '''' '''') (Message [TextBlock ''## Summary'', TextBlock ''more''])) ''D'' '''' =
       ([MessagesCreate (create_request demo_reviewer ''D'' '''')], Inr (Some ''## Summary''))
   \<and> review_code demo_reviewer
         (mk_world None (Contents '''') (Completed 0 '''' '''') (CreateRaises (APIError ''overloaded''))) ''D'' '''' =
       ([MessagesCreate (create_request demo_reviewer ''D'' ''''),
         Log ERROR ''Anthropic API Error: overloaded''], Inr None)
   \<and> review_code demo_reviewer
         (mk_world None (Contents '''') (Completed 0 '''' '''') (CreateRaises (OtherException ''ConnectError'' ''timed out''))) ''D'' '''' =
       ([MessagesCreate (create_request demo_reviewer ''D'' ''''),
         Log ERROR ''Unexpected error during API call: ConnectError: timed out''], Inr None)
   \<and> review_code demo_reviewer
         (mk_world None (Contents '''') (Completed 0 '''' '''') (Message [])) ''D'' '''' =
       ([MessagesCreate (create_request demo_reviewer ''D'' ''''),
         Log ERROR ''Unexpected error during API call: IndexError: list index out of range''],
        Inr None)
   \<and> snd (review_code demo_reviewer
         (mk_world None (Contents '''') (Completed 0 '''' '''') (Message [NonTextBlock ''ToolUseBlock''])) ''D'' '''') = Inr None"
  using review_code_never_raises
      [of demo_reviewer "mk_world None (Contents '''') (Completed 0 '''' '''') (Message [TextBlock ''## Summary'', TextBlock ''more''])" "''D''" "''''"]
    review_code_never_raises
      [of demo_reviewer "mk_world None (Contents '''') (Completed 0 '''' '''') (CreateRaises (APIError ''overloaded''))" "''D''" "''''"]
    review_code_never_raises
      [of demo_reviewer "mk_world None (Contents '''') (Completed 0 '''' '''') (CreateRaises (OtherException ''ConnectError'' ''timed out''))" "''D''" "''''"]
    review_code_never_raises
      [of demo_reviewer "mk_world None (Contents '''') (Completed 0 '''' '''') (Message [])" "''D''" "''''"]
    review_code_never_raises
      [of demo_reviewer "mk_world None (Contents '''') (Completed 0 '''' '''') (Message [NonTextBlock ''ToolUseBlock''])" "''D''" "''''"]
  by (simp add: mk_world_def)

end
